theory Spec2Isabelle
  imports Main "HOL-Library.List_Lexorder" "HOL-Library.Multiset"
begin

section \<open>Python values used by \<open>bind/houdini.py\<close>\<close>

text \<open>
  A Python \<open>str\<close> is a sequence of Unicode code points: slicing, \<open>len\<close>, \<open>split\<close> and
  the comparison used by \<open>sorted\<close> all count and compare code points. A string is
  therefore a list of code points (natural numbers), ordered lexicographically.
  \<open>lit\<close> turns an ASCII literal of the source into that representation.
\<close>

type_synonym pystr = "nat list"

definition lit :: "string \<Rightarrow> pystr" where
  "lit cs = map of_char cs"

text \<open>
  The exceptions that the modelled code, or the library calls it makes, can raise, each
  with its message (for the exceptions of the operating system, the file name).
\<close>

datatype error =
    AttributeError pystr
  | ValueError pystr
  | RuntimeError pystr
  | FileNotFoundError pystr
  | NotADirectoryError pystr
  | PermissionError pystr
  | OSError pystr

subsection \<open>\<open>str.split\<close>, \<open>str.join\<close>, \<open>in\<close>\<close>

text \<open>
  \<open>s.split(sep)\<close> cuts \<open>s\<close> at the leftmost occurrences of \<open>sep\<close>, which do not overlap;
  the result is never empty. An empty separator raises \<open>ValueError\<close>.
  \<open>split_from sep acc s\<close> is the scan, \<open>acc\<close> holding the current piece reversed.
\<close>

function split_from :: "pystr \<Rightarrow> pystr \<Rightarrow> pystr \<Rightarrow> pystr list" where
  "split_from sep acc [] = [rev acc]"
| "split_from sep acc (c # cs) =
     (if sep \<noteq> [] \<and> take (length sep) (c # cs) = sep
      then rev acc # split_from sep [] (drop (length sep) (c # cs))
      else split_from sep (c # acc) cs)"
  by pat_completeness auto
termination
  by (relation "measure (\<lambda>(sep, acc, s). length s)") auto

definition str_split :: "pystr \<Rightarrow> pystr \<Rightarrow> error + pystr list" where
  "str_split s sep =
     (if sep = [] then Inl (ValueError (lit ''empty separator''))
      else Inr (split_from sep [] s))"

fun str_join :: "pystr \<Rightarrow> pystr list \<Rightarrow> pystr" where
  "str_join sep [] = []"
| "str_join sep [x] = x"
| "str_join sep (x # y # ys) = x @ sep @ str_join sep (y # ys)"

text \<open>\<open>sub in s\<close>: \<open>sub\<close> occurs in \<open>s\<close> as a contiguous substring.\<close>

fun str_contains :: "pystr \<Rightarrow> pystr \<Rightarrow> bool" where
  "str_contains sub [] = (sub = [])"
| "str_contains sub (c # cs) = (take (length sub) (c # cs) = sub \<or> str_contains sub cs)"

subsection \<open>\<open>pathlib.Path\<close> (POSIX flavour)\<close>

text \<open>
  A path is its root (\<open>''''\<close>, \<open>/\<close> or \<open>//\<close>) and the list of its components. The
  constructor drops empty components and \<open>.\<close> components; \<open>name\<close> is the last component,
  or the empty string when there is none; \<open>/\<close> appends the components of a relative
  operand and is replaced by an absolute one; \<open>str\<close> prints \<open>.\<close> for the empty path.
\<close>

datatype path = PosixPath (path_root: pystr) (path_tail: "pystr list")

definition splitroot :: "pystr \<Rightarrow> pystr \<times> pystr" where
  "splitroot p =
     (if take 1 p \<noteq> lit ''/'' then ([], p)
      else if take 1 (drop 1 p) \<noteq> lit ''/'' \<or> take 1 (drop 2 p) = lit ''/''
        then (lit ''/'', drop 1 p)
      else (take 2 p, drop 2 p))"

definition Path :: "pystr \<Rightarrow> path" where
  "Path s =
     (if s = [] then PosixPath [] []
      else case splitroot s of
        (r, rel) \<Rightarrow>
          PosixPath r (filter (\<lambda>x. x \<noteq> [] \<and> x \<noteq> lit ''.'') (split_from (lit ''/'') [] rel)))"

definition name :: "path \<Rightarrow> pystr" where
  "name p = (case path_tail p of [] \<Rightarrow> [] | _ # _ \<Rightarrow> last (path_tail p))"

definition truediv :: "path \<Rightarrow> pystr \<Rightarrow> path" where
  "truediv p key =
     (let k = Path key
      in if path_root k \<noteq> [] then k
         else PosixPath (path_root p) (path_tail p @ path_tail k))"

definition path_str :: "path \<Rightarrow> pystr" where
  "path_str p =
     (if path_root p = [] \<and> path_tail p = [] then lit ''.''
      else path_root p @ str_join (lit ''/'') (path_tail p))"

section \<open>\<open>get_houdini_version\<close>\<close>

text \<open>
  \<^verbatim>\<open>
  folder_name = hfs_path.name
  hfs_version = folder_name[3:]
  components = hfs_version.split(".")
  if len(components) > 2 and only_major_minor:
      components = components[:2]
  return ".".join(components)
  \<close>
  The slices \<open>[3:]\<close> and \<open>[:2]\<close> never raise; \<open>split\<close> is the only call that can.
\<close>

definition get_houdini_version :: "path \<Rightarrow> bool \<Rightarrow> error + pystr" where
  "get_houdini_version hfs_path only_major_minor =
     (let folder_name = name hfs_path;
          hfs_version = drop 3 folder_name
      in case str_split hfs_version (lit ''.'') of
           Inl e \<Rightarrow> Inl e
         | Inr components \<Rightarrow>
             Inr (str_join (lit ''.'')
                    (if length components > 2 \<and> only_major_minor
                     then take 2 components else components)))"

section \<open>The world outside the module\<close>

text \<open>
  The functions below read the file system and the interpreter's Unicode tables. What
  they can observe is gathered in one record, passed explicitly:
  \<^item> \<open>unicode_decimal\<close>: the characters that \<open>\d\<close> of a \<open>str\<close> pattern matches (the
    decimal digits of the interpreter's Unicode database; the ASCII digits are among
    them);
  \<^item> \<open>resolve\<close>: \<open>Path.resolve()\<close>, which follows symbolic links; it returns the path
    unchanged as far as it does not exist, and can itself raise (a symbolic-link loop,
    a deleted working directory);
  \<^item> \<open>iterdir\<close>: the children of a directory in the order the file system enumerates
    them, or the exception raised when the directory cannot be listed
    (\<open>FileNotFoundError\<close> when it does not exist);
  \<^item> \<open>system_variant\<close>: rez's \<open>system.variant\<close>.
  A child is its file name with the answers to the three probes the code makes:
  \<open>is_file()\<close> (a regular file, symbolic links followed), \<open>is_symlink()\<close> and
  \<open>os.access(child, os.X_OK)\<close>. The probes are taken as answers: for a child that
  has vanished or a dangling link they answer \<open>False\<close>.
\<close>

record child =
  child_name :: pystr
  is_file :: bool
  is_symlink :: bool
  access_X_OK :: bool

record env =
  unicode_decimal :: "nat \<Rightarrow> bool"
  resolve :: "path \<Rightarrow> error + path"
  iterdir :: "path \<Rightarrow> error + child list"
  system_variant :: "pystr list"

section \<open>\<open>get_python_version\<close>\<close>

text \<open>
  \<open>re.match("python(\\d\\.\\d+)$", s)\<close>, giving \<open>group(1)\<close> on a match. The match starts
  at the first character. \<open>\d+\<close> is greedy; giving characters back never helps, since
  the character after a shorter run is a digit of the run. Without the \<open>MULTILINE\<close>
  flag, \<open>$\<close> matches at the end of the string and also just before a newline that is
  the last character of the string.
\<close>

definition re_match_python :: "(nat \<Rightarrow> bool) \<Rightarrow> pystr \<Rightarrow> pystr option" where
  "re_match_python decimal s =
     (if take 6 s = lit ''python'' then
        (case drop 6 s of
           d # dot # ds \<Rightarrow>
             if decimal d \<and> dot = of_char (CHR ''.'') then
               (let digits = takeWhile decimal ds; rest = dropWhile decimal ds
                in if digits \<noteq> [] \<and> (rest = [] \<or> rest = [of_char (CHR 0x0A)])
                   then Some (d # dot # digits) else None)
             else None
         | _ \<Rightarrow> None)
      else None)"

definition get_python_version :: "env \<Rightarrow> path \<Rightarrow> error + pystr" where
  "get_python_version env hfs_path =
     (let python_bin =
            truediv (truediv (truediv hfs_path (lit ''python'')) (lit ''bin'')) (lit ''python'')
      in case resolve env python_bin of
           Inl e \<Rightarrow> Inl e
         | Inr python_bin \<Rightarrow>
             (case re_match_python (unicode_decimal env) (name python_bin) of
                None \<Rightarrow>
                  Inl (RuntimeError
                         (lit ''Could not determine python version for '' @ path_str python_bin))
              | Some group1 \<Rightarrow> Inr group1))"

section \<open>\<open>get_tools\<close>\<close>

text \<open>
  The inner loop over the children of one directory, \<open>found_tools\<close> being the list
  built so far; each \<open>continue\<close> of the source is one branch.
\<close>

fun scan_children :: "child list \<Rightarrow> pystr list \<Rightarrow> pystr list" where
  "scan_children [] found_tools = found_tools"
| "scan_children (c # cs) found_tools =
     (if \<not> is_file c then scan_children cs found_tools
      else if str_contains (lit ''-bin'') (child_name c) then scan_children cs found_tools
      else if is_symlink c then scan_children cs found_tools
      else if \<not> access_X_OK c then scan_children cs found_tools
      else scan_children cs (found_tools @ [child_name c]))"

text \<open>The outer loop over the directory names; a directory that cannot be listed
  ends the function with the exception.\<close>

fun scan_dirs :: "env \<Rightarrow> path \<Rightarrow> pystr list \<Rightarrow> pystr list \<Rightarrow> error + pystr list" where
  "scan_dirs env root [] found_tools = Inr found_tools"
| "scan_dirs env root (bin_dir_name # rest) found_tools =
     (case iterdir env (truediv root bin_dir_name) of
        Inl e \<Rightarrow> Inl e
      | Inr children \<Rightarrow> scan_dirs env root rest (scan_children children found_tools))"

definition bin_dir_names :: "pystr list" where
  "bin_dir_names = [lit ''bin'', lit ''houdini/sbin'']"

definition get_tools :: "env \<Rightarrow> path \<Rightarrow> error + pystr list" where
  "get_tools env root =
     (case scan_dirs env root bin_dir_names [] of
        Inl e \<Rightarrow> Inl e
      | Inr found_tools \<Rightarrow> Inr (sort found_tools))"

section \<open>\<open>bind\<close>\<close>

text \<open>
  \<open>opts\<close> is the \<open>argparse.Namespace\<close> built from \<open>setup_parser\<close>: the positional \<open>hfs\<close>
  and the flag \<open>--major-minor-only\<close>; with the default \<open>None\<close> the first attribute
  access raises \<open>AttributeError\<close>. \<open>version_range\<close> and \<open>parser\<close> are not used. The three hooks assigned to the package are the
  module's functions \<open>commands\<close>, \<open>pre_commands\<close> and \<open>post_commands\<close>, passed by
  reference.
\<close>

record namespace =
  hfs :: pystr
  major_minor_only :: bool

datatype hook = commands | pre_commands | post_commands

record package =
  pkg_name :: pystr
  pkg_version :: pystr
  pkg_tools :: "pystr list"
  pkg_commands :: hook
  pkg_variants :: "pystr list list"
  pkg_pre_commands :: hook
  pkg_post_commands :: hook
  pkg_has_plugins :: bool
  pkg_description :: pystr
  pkg_requires :: "pystr list"

text \<open>
  \<open>make_root(variant, root)\<close> asks the platform for a symbolic link
  \<open>os.path.join(root, "ext")\<close> pointing at the installation.
\<close>

record symlink =
  link_source :: path
  link_path :: pystr

definition os_path_join :: "pystr \<Rightarrow> pystr \<Rightarrow> pystr" where
  "os_path_join a b =
     (if take 1 b = lit ''/'' then b
      else if a = [] \<or> last a = of_char (CHR ''/'') then a @ b
      else a @ lit ''/'' @ b)"

definition make_root :: "path \<Rightarrow> 'v \<Rightarrow> pystr \<Rightarrow> symlink" where
  "make_root hfs_path variant root =
     \<lparr>link_source = hfs_path, link_path = os_path_join root (lit ''ext'')\<rparr>"

text \<open>
  \<open>make_package(name, path, make_root=...)\<close> is rez's: leaving the \<open>with\<close> block hands
  the filled package to rez, which installs it and reports the installed variants, or
  raises. The call is the effect of \<open>bind\<close>; it is a record of what rez receives, and
  rez's answer is the parameter \<open>rez\<close>. \<open>bind\<close> returns what rez received together with
  \<open>pkg.installed_variants\<close>. An exception inside the \<open>with\<close> block leaves it before rez
  installs anything.
\<close>

record 'v submission =
  sub_package :: package
  sub_path :: pystr
  sub_make_root :: "'v \<Rightarrow> pystr \<Rightarrow> symlink"

definition bind ::
  "env \<Rightarrow> ('v submission \<Rightarrow> error + 'v list) \<Rightarrow> pystr \<Rightarrow> 'r option \<Rightarrow> namespace option
     \<Rightarrow> 'p option \<Rightarrow> error + ('v submission \<times> 'v list)" where
  "bind env rez path version_range opts parser =
     (case opts of
        None \<Rightarrow>
          Inl (AttributeError
                 (of_char (CHR 0x27) # lit ''NoneType'' @ of_char (CHR 0x27)
                    # lit '' object has no attribute '' @ of_char (CHR 0x27)
                    # lit ''hfs'' @ [of_char (CHR 0x27)]))
      | Some ns \<Rightarrow>
          (let hfs_path = Path (hfs ns);
               only_major_minor = major_minor_only ns
           in case get_houdini_version hfs_path only_major_minor of
                Inl e \<Rightarrow> Inl e
              | Inr version \<Rightarrow>
                  (case get_python_version env hfs_path of
                     Inl e \<Rightarrow> Inl e
                   | Inr python_version \<Rightarrow>
                       (let requires = [lit ''~python-'' @ python_version]
                        in case get_tools env hfs_path of
                             Inl e \<Rightarrow> Inl e
                           | Inr tools \<Rightarrow>
                               (let pkg =
                                      \<lparr>pkg_name = lit ''houdinier'',
                                       pkg_version = version,
                                       pkg_tools = tools,
                                       pkg_commands = commands,
                                       pkg_variants = [system_variant env],
                                       pkg_pre_commands = pre_commands,
                                       pkg_post_commands = post_commands,
                                       pkg_has_plugins = True,
                                       pkg_description = lit ''Base Houdini package'',
                                       pkg_requires = requires\<rparr>;
                                    sub =
                                      \<lparr>sub_package = pkg, sub_path = path,
                                       sub_make_root = make_root hfs_path\<rparr>
                                in case rez sub of
                                     Inl e \<Rightarrow> Inl e
                                   | Inr installed_variants \<Rightarrow>
                                       Inr (sub, installed_variants))))))"

section \<open>The interpreter pattern as the specification words it\<close>


section \<open>Example installations\<close>

text \<open>
  An installation at \<open>/opt/hfs19.5.493\<close>: \<open>python/bin/python\<close> resolves to the given
  interpreter file name in the same directory, every other path resolves to itself; the
  two tool directories have the given listings, and no other directory exists.
\<close>

definition ascii_decimal :: "nat \<Rightarrow> bool" where
  "ascii_decimal c = (of_char (CHR ''0'') \<le> c \<and> c \<le> of_char (CHR ''9''))"


definition installation :: "pystr \<Rightarrow> error + child list \<Rightarrow> error + child list \<Rightarrow> env" where
  "installation interpreter bin sbin =
     \<lparr>unicode_decimal = ascii_decimal,
      resolve =
        (\<lambda>p. if p = PosixPath (lit ''/'')
                      [lit ''opt'', lit ''hfs19.5.493'', lit ''python'', lit ''bin'', lit ''python'']
              then Inr (PosixPath (lit ''/'')
                      [lit ''opt'', lit ''hfs19.5.493'', lit ''python'', lit ''bin'', interpreter])
              else Inr p),
      iterdir =
        (\<lambda>p. if p = PosixPath (lit ''/'') [lit ''opt'', lit ''hfs19.5.493'', lit ''bin'']
              then bin
              else if p = PosixPath (lit ''/'')
                      [lit ''opt'', lit ''hfs19.5.493'', lit ''houdini'', lit ''sbin'']
              then sbin
              else Inl (FileNotFoundError (path_str p))),
      system_variant = [lit ''platform-linux'', lit ''arch-x86_64'']\<rparr>"

definition executable_file :: "pystr \<Rightarrow> child" where
  "executable_file n =
     \<lparr>child_name = n, is_file = True, is_symlink = False, access_X_OK = True\<rparr>"



definition missing :: "pystr \<Rightarrow> error + child list" where
  "missing dir = Inl (FileNotFoundError dir)"

definition cli :: "bool \<Rightarrow> namespace" where
  "cli flag = \<lparr>hfs = lit ''/opt/hfs19.5.493'', major_minor_only = flag\<rparr>"

section \<open>Auxiliary facts\<close>

lemma lit_dot: "lit ''.'' = [of_char (CHR ''.'')]"
  by (simp add: lit_def)

lemma split_from_not_Nil: "split_from sep acc s \<noteq> []"
  by (induction sep acc s rule: split_from.induct) auto

lemma str_join_Cons: "ys \<noteq> [] \<Longrightarrow> str_join sep (x # ys) = x @ sep @ str_join sep ys"
  by (cases ys) auto

lemma str_join_split_from: "str_join sep (split_from sep acc s) = rev acc @ s"
proof (induction sep acc s rule: split_from.induct)
  case (1 sep acc)
  then show ?case by simp
next
  case (2 sep acc c cs)
  show ?case
  proof (cases "sep \<noteq> [] \<and> take (length sep) (c # cs) = sep")
    case True
    then have "sep @ drop (length sep) (c # cs) = c # cs"
      by (metis append_take_drop_id)
    with True 2(1) show ?thesis
      by (simp add: str_join_Cons split_from_not_Nil del: take_Suc_Cons drop_Suc_Cons)
  next
    case False
    with 2(2) show ?thesis by auto
  qed
qed

lemma split_from_single_end: "d \<notin> set a \<Longrightarrow> split_from [d] acc a = [rev acc @ a]"
  by (induction a arbitrary: acc) auto

lemma split_from_single_sep:
  "d \<notin> set a \<Longrightarrow> split_from [d] acc (a @ d # rest) = (rev acc @ a) # split_from [d] [] rest"
  by (induction a arbitrary: acc) auto

lemma get_houdini_version_eq:
  "get_houdini_version p flag =
     Inr (let components = split_from (lit ''.'') [] (drop 3 (name p))
          in str_join (lit ''.'')
               (if length components > 2 \<and> flag then take 2 components else components))"
  by (simp add: get_houdini_version_def str_split_def lit_dot Let_def)









section \<open>The version resolver\<close>

text \<open>
  C1. When the final segment of the installation path is a 3-character prefix followed
  by \<open>a.b.c\<close>, where \<open>a\<close> and \<open>b\<close> contain no dot, \<open>get_houdini_version\<close> returns \<open>a.b\<close>
  with truncation and \<open>a.b.c\<close> without; for the payload \<open>a.b\<close> both settings return
  \<open>a.b\<close>; and any payload with at most two components is returned unchanged whatever
  the flag.
\<close>

theorem get_houdini_version_truncation:
  assumes "length pre = 3"
    and "of_char (CHR ''.'') \<notin> set a"
    and "of_char (CHR ''.'') \<notin> set b"
  shows "(name hfs_path = pre @ a @ lit ''.'' @ b @ lit ''.'' @ c \<longrightarrow>
            get_houdini_version hfs_path True = Inr (a @ lit ''.'' @ b) \<and>
            get_houdini_version hfs_path False = Inr (a @ lit ''.'' @ b @ lit ''.'' @ c))
       \<and> (name hfs_path = pre @ a @ lit ''.'' @ b \<longrightarrow>
            (\<forall>flag. get_houdini_version hfs_path flag = Inr (a @ lit ''.'' @ b)))
       \<and> (name hfs_path = pre @ payload \<and> length (split_from (lit ''.'') [] payload) \<le> 2 \<longrightarrow>
            (\<forall>flag. get_houdini_version hfs_path flag = Inr payload))"
proof (intro conjI impI allI)
  assume n: "name hfs_path = pre @ a @ lit ''.'' @ b @ lit ''.'' @ c"
  have s: "split_from (lit ''.'') [] (a @ lit ''.'' @ b @ lit ''.'' @ c)
             = a # b # split_from (lit ''.'') [] c"
    using assms(2,3) by (simp add: lit_dot split_from_single_sep)
  have l: "2 < length (a # b # split_from (lit ''.'') [] c)"
    using split_from_not_Nil [of "lit ''.''" "[]" c] by (cases "split_from (lit ''.'') [] c") auto
  show "get_houdini_version hfs_path True = Inr (a @ lit ''.'' @ b)"
    using l by (simp add: get_houdini_version_eq n assms(1) s)
  show "get_houdini_version hfs_path False = Inr (a @ lit ''.'' @ b @ lit ''.'' @ c)"
    by (simp add: get_houdini_version_eq n assms(1) str_join_split_from)
next
  fix flag
  assume n: "name hfs_path = pre @ a @ lit ''.'' @ b"
  have s: "split_from (lit ''.'') [] (a @ lit ''.'' @ b) = [a, b]"
    using assms(2,3) by (simp add: lit_dot split_from_single_sep split_from_single_end)
  show "get_houdini_version hfs_path flag = Inr (a @ lit ''.'' @ b)"
    by (simp add: get_houdini_version_eq n assms(1) s)
next
  fix flag
  assume "name hfs_path = pre @ payload \<and> length (split_from (lit ''.'') [] payload) \<le> 2"
  then show "get_houdini_version hfs_path flag = Inr payload"
    by (simp add: get_houdini_version_eq assms(1) str_join_split_from)
qed

theorem get_houdini_version_truncation_witness:
  "name (Path (lit ''/opt/hfs19.5.493''))
     = lit ''hfs'' @ lit ''19'' @ lit ''.'' @ lit ''5'' @ lit ''.'' @ lit ''493''
   \<and> get_houdini_version (Path (lit ''/opt/hfs19.5.493'')) True = Inr (lit ''19.5'')
   \<and> get_houdini_version (Path (lit ''/opt/hfs19.5.493'')) False = Inr (lit ''19.5.493'')
   \<and> name (Path (lit ''/opt/hfs19.5'')) = lit ''hfs'' @ lit ''19'' @ lit ''.'' @ lit ''5''
   \<and> get_houdini_version (Path (lit ''/opt/hfs19.5'')) True = Inr (lit ''19.5'')
   \<and> get_houdini_version (Path (lit ''/opt/hfs19.5'')) False = Inr (lit ''19.5'')
   \<and> length (split_from (lit ''.'') [] (lit ''19'')) \<le> 2
   \<and> get_houdini_version (Path (lit ''/opt/hfs19'')) True = Inr (lit ''19'')"
proof -
  have n3: "name (Path (lit ''/opt/hfs19.5.493''))
              = lit ''hfs'' @ lit ''19'' @ lit ''.'' @ lit ''5'' @ lit ''.'' @ lit ''493''"
    by code_simp
  have n2: "name (Path (lit ''/opt/hfs19.5'')) = lit ''hfs'' @ lit ''19'' @ lit ''.'' @ lit ''5''"
    by code_simp
  have n1: "name (Path (lit ''/opt/hfs19'')) = lit ''hfs'' @ lit ''19''"
    by code_simp
  have l1: "length (split_from (lit ''.'') [] (lit ''19'')) \<le> 2"
    by code_simp
  have h: "length (lit ''hfs'') = 3" "of_char (CHR ''.'') \<notin> set (lit ''19'')"
    "of_char (CHR ''.'') \<notin> set (lit ''5'')"
    by (simp_all add: lit_def)
  note t3 = get_houdini_version_truncation
              [OF h, of "Path (lit ''/opt/hfs19.5.493'')" "lit ''493''" "lit ''19''"]
  note t2 = get_houdini_version_truncation
              [OF h, of "Path (lit ''/opt/hfs19.5'')" "lit ''493''" "lit ''19''"]
  note t1 = get_houdini_version_truncation
              [OF h, of "Path (lit ''/opt/hfs19'')" "lit ''493''" "lit ''19''"]
  from t3 n3
  have a: "get_houdini_version (Path (lit ''/opt/hfs19.5.493'')) True
             = Inr (lit ''19'' @ lit ''.'' @ lit ''5'')"
    "get_houdini_version (Path (lit ''/opt/hfs19.5.493'')) False
       = Inr (lit ''19'' @ lit ''.'' @ lit ''5'' @ lit ''.'' @ lit ''493'')"
    by blast+
  from t2 n2
  have b: "\<forall>flag. get_houdini_version (Path (lit ''/opt/hfs19.5'')) flag
             = Inr (lit ''19'' @ lit ''.'' @ lit ''5'')"
    by blast
  from t1 n1 l1
  have c: "\<forall>flag. get_houdini_version (Path (lit ''/opt/hfs19'')) flag = Inr (lit ''19'')"
    by blast
  have e: "lit ''19'' @ lit ''.'' @ lit ''5'' = lit ''19.5''"
    "lit ''19'' @ lit ''.'' @ lit ''5'' @ lit ''.'' @ lit ''493'' = lit ''19.5.493''"
    by (simp_all add: lit_def)
  show ?thesis using a b c n3 n2 l1 unfolding e by simp
qed

text \<open>
  C2. \<open>get_houdini_version\<close> returns a string for every path and every flag: the one
  call that could raise, \<open>split\<close>, is given a non-empty separator. Without truncation
  the result is everything after the first three characters of the final segment, as
  it stands; the segment \<open><prefix>abc\<close> gives \<open>abc\<close> for both flags.
\<close>

theorem get_houdini_version_never_raises:
  "(\<exists>v. get_houdini_version hfs_path flag = Inr v)
   \<and> get_houdini_version hfs_path False = Inr (drop 3 (name hfs_path))
   \<and> (length pre = 3 \<and> name hfs_path = pre @ lit ''abc'' \<longrightarrow>
        get_houdini_version hfs_path flag = Inr (lit ''abc''))"
proof (intro conjI impI)
  show "\<exists>v. get_houdini_version hfs_path flag = Inr v"
    by (simp add: get_houdini_version_eq)
  show "get_houdini_version hfs_path False = Inr (drop 3 (name hfs_path))"
    by (simp add: get_houdini_version_eq str_join_split_from)
  assume h: "length pre = 3 \<and> name hfs_path = pre @ lit ''abc''"
  have "split_from (lit ''.'') [] (lit ''abc'') = [lit ''abc'']"
    by (simp add: lit_def)
  with h show "get_houdini_version hfs_path flag = Inr (lit ''abc'')"
    by (simp add: get_houdini_version_eq)
qed

theorem get_houdini_version_never_raises_witness:
  "length (lit ''hfs'') = 3
   \<and> name (Path (lit ''/opt/hfsabc'')) = lit ''hfs'' @ lit ''abc''
   \<and> get_houdini_version (Path (lit ''/opt/hfsabc'')) True = Inr (lit ''abc'')
   \<and> get_houdini_version (Path (lit ''/opt/hfsabc'')) False = Inr (lit ''abc'')"
proof -
  have l: "length (lit ''hfs'') = 3"
    by (simp add: lit_def)
  have n: "name (Path (lit ''/opt/hfsabc'')) = lit ''hfs'' @ lit ''abc''"
    by code_simp
  from get_houdini_version_never_raises [of "Path (lit ''/opt/hfsabc'')" True "lit ''hfs''"]
       get_houdini_version_never_raises [of "Path (lit ''/opt/hfsabc'')" False "lit ''hfs''"]
       l n
  show ?thesis by blast
qed

text \<open>
  C9. The first three characters of the final segment are dropped without being looked
  at: a segment of at most three characters gives the empty string, the segment
  \<open>19.5.493\<close> gives \<open>5.493\<close>, and two segments that differ only in their first three
  characters give the same result.
\<close>

theorem get_houdini_version_prefix_unchecked:
  "(length (name hfs_path) \<le> 3 \<longrightarrow> get_houdini_version hfs_path flag = Inr [])
   \<and> (name hfs_path = lit ''19.5.493'' \<longrightarrow>
        get_houdini_version hfs_path flag = Inr (lit ''5.493''))
   \<and> (length pre = 3 \<and> length pre' = 3 \<and> name hfs_path = pre @ payload
        \<and> name other_path = pre' @ payload \<longrightarrow>
        get_houdini_version hfs_path flag = get_houdini_version other_path flag)"
proof (intro conjI impI)
  assume "length (name hfs_path) \<le> 3"
  then show "get_houdini_version hfs_path flag = Inr []"
    by (simp add: get_houdini_version_eq)
next
  assume n: "name hfs_path = lit ''19.5.493''"
  show "get_houdini_version hfs_path flag = Inr (lit ''5.493'')"
    by (simp add: get_houdini_version_eq n lit_def)
next
  assume "length pre = 3 \<and> length pre' = 3 \<and> name hfs_path = pre @ payload
        \<and> name other_path = pre' @ payload"
  then show "get_houdini_version hfs_path flag = get_houdini_version other_path flag"
    by (simp add: get_houdini_version_eq)
qed

theorem get_houdini_version_prefix_unchecked_witness:
  "length (name (Path (lit ''/opt/hfs''))) \<le> 3
   \<and> get_houdini_version (Path (lit ''/opt/hfs'')) True = Inr []
   \<and> name (Path (lit ''/opt/19.5.493'')) = lit ''19.5.493''
   \<and> get_houdini_version (Path (lit ''/opt/19.5.493'')) False = Inr (lit ''5.493'')
   \<and> length (lit ''hfs'') = 3 \<and> length (lit ''xyz'') = 3
   \<and> name (Path (lit ''/opt/hfs20.0'')) = lit ''hfs'' @ lit ''20.0''
   \<and> name (Path (lit ''/opt/xyz20.0'')) = lit ''xyz'' @ lit ''20.0''
   \<and> get_houdini_version (Path (lit ''/opt/hfs20.0'')) True
       = get_houdini_version (Path (lit ''/opt/xyz20.0'')) True"
proof -
  have a: "length (name (Path (lit ''/opt/hfs''))) \<le> 3"
    by code_simp
  have b: "name (Path (lit ''/opt/19.5.493'')) = lit ''19.5.493''"
    by code_simp
  have c: "length (lit ''hfs'') = 3 \<and> length (lit ''xyz'') = 3"
    by (simp add: lit_def)
  have d: "name (Path (lit ''/opt/hfs20.0'')) = lit ''hfs'' @ lit ''20.0''"
    by code_simp
  have e: "name (Path (lit ''/opt/xyz20.0'')) = lit ''xyz'' @ lit ''20.0''"
    by code_simp
  from get_houdini_version_prefix_unchecked [of "Path (lit ''/opt/hfs'')" True]
       get_houdini_version_prefix_unchecked [of "Path (lit ''/opt/19.5.493'')" False]
       get_houdini_version_prefix_unchecked
         [of "Path (lit ''/opt/hfs20.0'')" True "lit ''hfs''" "lit ''xyz''" "lit ''20.0''"
             "Path (lit ''/opt/xyz20.0'')"]
       a b c d e
  show ?thesis by blast
qed

section \<open>The interpreter-version resolver\<close>





section \<open>Tool discovery\<close>














section \<open>The bind entry point\<close>

lemma bind_Some:
  "bind env rez path version_range (Some ns) parser =
     (case get_houdini_version (Path (hfs ns)) (major_minor_only ns) of
        Inl e \<Rightarrow> Inl e
      | Inr version \<Rightarrow>
          (case get_python_version env (Path (hfs ns)) of
             Inl e \<Rightarrow> Inl e
           | Inr python_version \<Rightarrow>
               (case get_tools env (Path (hfs ns)) of
                  Inl e \<Rightarrow> Inl e
                | Inr tools \<Rightarrow>
                    (case rez \<lparr>sub_package =
                                 \<lparr>pkg_name = lit ''houdinier'',
                                  pkg_version = version,
                                  pkg_tools = tools,
                                  pkg_commands = commands,
                                  pkg_variants = [system_variant env],
                                  pkg_pre_commands = pre_commands,
                                  pkg_post_commands = post_commands,
                                  pkg_has_plugins = True,
                                  pkg_description = lit ''Base Houdini package'',
                                  pkg_requires = [lit ''~python-'' @ python_version]\<rparr>,
                               sub_path = path,
                               sub_make_root = make_root (Path (hfs ns))\<rparr> of
                       Inl e \<Rightarrow> Inl e
                     | Inr installed_variants \<Rightarrow>
                         Inr (\<lparr>sub_package =
                                 \<lparr>pkg_name = lit ''houdinier'',
                                  pkg_version = version,
                                  pkg_tools = tools,
                                  pkg_commands = commands,
                                  pkg_variants = [system_variant env],
                                  pkg_pre_commands = pre_commands,
                                  pkg_post_commands = post_commands,
                                  pkg_has_plugins = True,
                                  pkg_description = lit ''Base Houdini package'',
                                  pkg_requires = [lit ''~python-'' @ python_version]\<rparr>,
                               sub_path = path,
                               sub_make_root = make_root (Path (hfs ns))\<rparr>,
                              installed_variants)))))"
  by (simp add: bind_def Let_def split: sum.splits)



text \<open>
  C7. \<open>bind\<close> resolves the interpreter version before it scans the tool directories:
  when \<open>get_python_version\<close> fails, \<open>bind\<close> fails with that very exception, whether
  or not \<open>get_tools\<close> would fail too; when \<open>get_python_version\<close> succeeds and
  \<open>get_tools\<close> fails, \<open>bind\<close> fails with the exception of \<open>get_tools\<close>, unchanged.
\<close>

theorem bind_interpreter_first:
  "(get_python_version env (Path (hfs ns)) = Inl e \<longrightarrow>
      bind env rez path version_range (Some ns) parser = Inl e)
   \<and> (get_python_version env (Path (hfs ns)) = Inr python_version
        \<and> get_tools env (Path (hfs ns)) = Inl e \<longrightarrow>
      bind env rez path version_range (Some ns) parser = Inl e)"
  by (simp add: bind_Some get_houdini_version_eq)

theorem bind_interpreter_first_witness:
  "get_python_version
       (installation (lit ''python'') (missing (lit ''/opt/hfs19.5.493/bin''))
          (missing (lit ''/opt/hfs19.5.493/houdini/sbin'')))
       (Path (hfs (cli False)))
     = Inl (RuntimeError
         (lit ''Could not determine python version for /opt/hfs19.5.493/python/bin/python''))
   \<and> get_tools
       (installation (lit ''python'') (missing (lit ''/opt/hfs19.5.493/bin''))
          (missing (lit ''/opt/hfs19.5.493/houdini/sbin'')))
       (Path (hfs (cli False)))
     = Inl (FileNotFoundError (lit ''/opt/hfs19.5.493/bin''))
   \<and> bind
       (installation (lit ''python'') (missing (lit ''/opt/hfs19.5.493/bin''))
          (missing (lit ''/opt/hfs19.5.493/houdini/sbin'')))
       (\<lambda>s. Inr [()]) (lit ''/packages'') (None :: unit option) (Some (cli False))
       (None :: unit option)
     = Inl (RuntimeError
         (lit ''Could not determine python version for /opt/hfs19.5.493/python/bin/python''))
   \<and> get_python_version
       (installation (lit ''python3.9'') (Inr [executable_file (lit ''hython'')])
          (missing (lit ''/opt/hfs19.5.493/houdini/sbin'')))
       (Path (hfs (cli False)))
     = Inr (lit ''3.9'')
   \<and> bind
       (installation (lit ''python3.9'') (Inr [executable_file (lit ''hython'')])
          (missing (lit ''/opt/hfs19.5.493/houdini/sbin'')))
       (\<lambda>s. Inr [()]) (lit ''/packages'') (None :: unit option) (Some (cli False))
       (None :: unit option)
     = Inl (FileNotFoundError (lit ''/opt/hfs19.5.493/houdini/sbin''))"
proof -
  let ?env1 = "installation (lit ''python'') (missing (lit ''/opt/hfs19.5.493/bin''))
                 (missing (lit ''/opt/hfs19.5.493/houdini/sbin''))"
  let ?env2 = "installation (lit ''python3.9'') (Inr [executable_file (lit ''hython'')])
                 (missing (lit ''/opt/hfs19.5.493/houdini/sbin''))"
  have p1: "get_python_version ?env1 (Path (hfs (cli False)))
     = Inl (RuntimeError
         (lit ''Could not determine python version for /opt/hfs19.5.493/python/bin/python''))"
    by code_simp
  have t1: "get_tools ?env1 (Path (hfs (cli False)))
     = Inl (FileNotFoundError (lit ''/opt/hfs19.5.493/bin''))"
    by code_simp
  have p2: "get_python_version ?env2 (Path (hfs (cli False))) = Inr (lit ''3.9'')"
    by code_simp
  have t2: "get_tools ?env2 (Path (hfs (cli False)))
     = Inl (FileNotFoundError (lit ''/opt/hfs19.5.493/houdini/sbin''))"
    by code_simp
  from bind_interpreter_first
         [of ?env1 "cli False"
             "RuntimeError
                (lit ''Could not determine python version for /opt/hfs19.5.493/python/bin/python'')"
             "\<lambda>s. Inr [()]" "lit ''/packages''" "None :: unit option" "None :: unit option"]
       bind_interpreter_first
         [of ?env2 "cli False" "FileNotFoundError (lit ''/opt/hfs19.5.493/houdini/sbin'')"
             "\<lambda>s. Inr [()]" "lit ''/packages''" "None :: unit option" "None :: unit option"
             "lit ''3.9''"]
       p1 t1 p2 t2
  show ?thesis by blast
qed



text \<open>
  C10. Whatever its arguments, every package that \<open>bind\<close> returns as handed to rez is
  named \<open>houdinier\<close>; and \<open>bind\<close> behaves the same towards a rez that refuses every
  other name, so no package of another name is ever handed over. The name is a
  constant of the code: \<open>bind\<close> has no parameter for it.
\<close>

theorem bind_name_constant:
  "(bind env rez path version_range opts parser = Inr (sub, installed_variants) \<longrightarrow>
      pkg_name (sub_package sub) = lit ''houdinier'')
   \<and> bind env rez path version_range opts parser =
       bind env (\<lambda>s. if pkg_name (sub_package s) = lit ''houdinier'' then rez s
                     else Inl (ValueError (pkg_name (sub_package s))))
         path version_range opts parser"
proof (cases opts)
  case None
  then show ?thesis by (simp add: bind_def)
next
  case (Some ns)
  then show ?thesis
    by (auto simp: bind_Some split: sum.splits)
qed

theorem bind_name_constant_witness:
  "\<exists>sub installed_variants.
     bind (installation (lit ''python3.9'') (Inr [executable_file (lit ''hython'')]) (Inr []))
       (\<lambda>s. Inr [()]) (lit ''/packages'') (None :: unit option) (Some (cli False))
       (None :: unit option)
     = Inr (sub, installed_variants)
     \<and> pkg_name (sub_package sub) = lit ''houdinier''"
proof -
  let ?env = "installation (lit ''python3.9'') (Inr [executable_file (lit ''hython'')]) (Inr [])"
  have v: "get_houdini_version (Path (hfs (cli False))) (major_minor_only (cli False))
             = Inr (lit ''19.5.493'')"
    by code_simp
  have p: "get_python_version ?env (Path (hfs (cli False))) = Inr (lit ''3.9'')"
    by code_simp
  have t: "get_tools ?env (Path (hfs (cli False))) = Inr [lit ''hython'']"
    by code_simp
  obtain sub where
    b: "bind ?env (\<lambda>s. Inr [()]) (lit ''/packages'') (None :: unit option) (Some (cli False))
          (None :: unit option) = Inr (sub, [()])"
    by (simp add: bind_Some v p t)
  from bind_name_constant
         [of ?env "\<lambda>s. Inr [()]" "lit ''/packages''" "None :: unit option" "Some (cli False)"
             "None :: unit option" sub "[()]"] b
  show ?thesis by blast
qed

end
